theory Spec2Isabelle
  imports Complex_Main
begin

section \<open>Data model (src/packaging\_evaluation/state.py)\<close>

text \<open>
  The pydantic models of \<^verbatim>\<open>state.py\<close> as records. Python \<^verbatim>\<open>str\<close> is \<open>string\<close>,
  \<^verbatim>\<open>int\<close> is \<open>int\<close>, \<^verbatim>\<open>Optional[T]\<close> is \<open>T option\<close>, \<^verbatim>\<open>List[T]\<close> is \<open>T list\<close>.
  A \<^verbatim>\<open>float\<close> field is carried as a \<open>real\<close>: no arithmetic is ever done on one, and
  \<^verbatim>\<open>evaluation_score\<close> only ever receives the integer score of the final evaluation.
  Three fields are renamed because Isabelle reserves or already uses the source's name:
  \<^verbatim>\<open>Component.function\<close> is \<open>func\<close>, \<^verbatim>\<open>ComponentAssessment.notes\<close> is \<open>ca_notes\<close>, and the
  record field \<^verbatim>\<open>PackagingEvaluationState.image_analysis\<close> is \<open>image_analysis_val\<close> (the name
  \<open>image_analysis\<close> is kept for the step handler of \<^verbatim>\<open>tools.py\<close>). The two
  \<^verbatim>\<open>overall_feasible\<close> fields carry the prefix of their model.
\<close>

record Component =
  name :: string
  material :: string
  func :: string
  requirements :: "string list"

record ComponentAssessment =
  component_name :: string
  feasible :: bool
  ca_notes :: string
  challenges :: "string list"
  technical_score :: real

record TechnicalAssessment =
  ta_overall_feasible :: bool
  component_assessments :: "ComponentAssessment list"
  technical_summary :: string

record OperationalAssessment =
  supply_chain_impact :: string
  production_changes_needed :: "string list"
  cost_impact :: string
  oa_overall_feasible :: bool
  operational_summary :: string

record ReflectionNotes =
  blind_spots :: "string list"
  questions :: "string list"
  requires_iteration :: bool
  reflection_summary :: string
  assessment_approved :: bool
  iteration_count :: int

record ImprovementRecommendation =
  area :: string
  recommendation :: string

record FinalEvaluation =
  feasibility_score :: int
  feasibility_summary :: string
  expert_rationale :: string
  key_strengths :: "string list"
  key_challenges :: "string list"
  improvement_recommendations :: "ImprovementRecommendation list"
  go_decision :: bool
  action_items :: "string list"
  executive_summary :: string

record ImageAnalysis =
  observations :: "string list"
  identified_components :: "string list"
  materials_detected :: "string list"
  design_features :: "string list"
  analysis_summary :: string

record UserFeedback =
  is_correct :: bool
  feedback_notes :: "string list"
  suggested_changes :: "string list"

text \<open>A message of the log is the dict \<^verbatim>\<open>{"agent": agent, "content": content}\<close>, kept as a pair.\<close>

type_synonym message = "string \<times> string"

record PackagingEvaluationState =
  packaging_concept :: string
  concept_images :: "string list"
  components :: "Component list"
  image_analysis_val :: "ImageAnalysis option"
  technical_assessment :: "TechnicalAssessment option"
  operational_assessment :: "OperationalAssessment option"
  reflection_notes :: "ReflectionNotes option"
  final_evaluation :: "FinalEvaluation option"
  evaluation_score :: "real option"
  final_recommendation :: string
  current_node :: string
  process_complete :: bool
  messages :: "message list"
  reflection_counter :: int
  user_feedback :: "UserFeedback option"
  feedback_iteration :: int
  awaiting_human_input :: bool

text \<open>\<^verbatim>\<open>add_message\<close> appends one entry to the log and touches nothing else.\<close>

definition add_message :: "string \<Rightarrow> string \<Rightarrow> PackagingEvaluationState \<Rightarrow> PackagingEvaluationState" where
  "add_message agent content s = s\<lparr>messages := messages s @ [(agent, content)]\<rparr>"

subsection \<open>Construction of a record\<close>

text \<open>
  Line 89 of \<^verbatim>\<open>state.py\<close> computes the default of \<^verbatim>\<open>current_node\<close> in the class body:
  \<^verbatim>\<open>current_node: str = "image_analyzer" if concept_images else "concept_breaker"\<close>.
  The class body runs once, when the class is created, and there the name
  \<^verbatim>\<open>concept_images\<close> is bound to what line 78 assigned to it: the object returned by
  \<^verbatim>\<open>Field(default_factory=list, ...)\<close>, not the list of any instance. That object defines
  neither \<^verbatim>\<open>__bool__\<close> nor \<^verbatim>\<open>__len__\<close>, so Python takes it as true.
\<close>

datatype class_binding = FieldInfo | StrList "string list"

fun truthy :: "class_binding \<Rightarrow> bool" where
  "truthy FieldInfo = True"
| "truthy (StrList xs) = (xs \<noteq> [])"

definition concept_images_in_class_body :: class_binding where
  "concept_images_in_class_body = FieldInfo"

definition current_node_default :: string where
  "current_node_default =
     (if truthy concept_images_in_class_body then ''image_analyzer'' else ''concept_breaker'')"

text \<open>
  \<^verbatim>\<open>PackagingEvaluationState(packaging_concept=pc, concept_images=imgs)\<close>: every other field
  takes its default.
\<close>

definition new_state :: "string \<Rightarrow> string list \<Rightarrow> PackagingEvaluationState" where
  "new_state pc imgs =
     \<lparr> packaging_concept = pc,
       concept_images = imgs,
       components = [],
       image_analysis_val = None,
       technical_assessment = None,
       operational_assessment = None,
       reflection_notes = None,
       final_evaluation = None,
       evaluation_score = None,
       final_recommendation = [],
       current_node = current_node_default,
       process_complete = False,
       messages = [],
       reflection_counter = 0,
       user_feedback = None,
       feedback_iteration = 0,
       awaiting_human_input = False \<rparr>"

section \<open>Text formatting used by the handlers\<close>

definition digit :: "nat \<Rightarrow> char" where
  "digit d = ''0123456789'' ! d"

function str_nat :: "nat \<Rightarrow> string" where
  "str_nat n = (if n < 10 then [digit n] else str_nat (n div 10) @ [digit (n mod 10)])"
  by pat_completeness auto
termination
  by (relation "measure id") auto

declare str_nat.simps [simp del]

definition str_int :: "int \<Rightarrow> string" where
  "str_int i = (if i < 0 then CHR ''-'' # str_nat (nat (- i)) else str_nat (nat i))"

definition str_bool :: "bool \<Rightarrow> string" where
  "str_bool b = (if b then ''True'' else ''False'')"

fun join :: "string \<Rightarrow> string list \<Rightarrow> string" where
  "join sep [] = []"
| "join sep [x] = x"
| "join sep (x # y # ys) = x @ sep @ join sep (y # ys)"

definition nl :: string where
  "nl = [CHR 0x0A]"

section \<open>The collaborator\<close>

text \<open>
  An exception of the program is a value. \<open>CollaboratorError\<close> is whatever the call
  \<^verbatim>\<open>structured_llm.ainvoke\<close> raises, \<open>ValueError\<close> is raised by \<^verbatim>\<open>process_feedback\<close>,
  \<open>HTTPException\<close> by \<^verbatim>\<open>evaluate_packaging\<close>.
\<close>

datatype error = CollaboratorError string | ValueError string | HTTPException nat string

text \<open>
  The language model is outside the program. Each \<^verbatim>\<open>llm.with_structured_output(T).ainvoke\<close>
  is a field of the record below: given the number of the driver-loop iteration that
  makes the call and the record the prompt is formatted from, it either raises (\<open>Inl\<close>) or
  returns an artifact of type \<open>T\<close> (\<open>Inr\<close>). Nothing is assumed about these functions, so a
  run of the program under an arbitrary collaborator covers every sequence of answers and
  failures. \<^verbatim>\<open>ComponentList\<close> has the single field \<^verbatim>\<open>components\<close> and is carried as that list.
\<close>

record collaborator =
  invoke_ImageAnalysis :: "nat \<Rightarrow> PackagingEvaluationState \<Rightarrow> error + ImageAnalysis"
  invoke_ComponentList :: "nat \<Rightarrow> PackagingEvaluationState \<Rightarrow> error + Component list"
  invoke_TechnicalAssessment :: "nat \<Rightarrow> PackagingEvaluationState \<Rightarrow> error + TechnicalAssessment"
  invoke_OperationalAssessment :: "nat \<Rightarrow> PackagingEvaluationState \<Rightarrow> error + OperationalAssessment"
  invoke_ReflectionNotes :: "nat \<Rightarrow> PackagingEvaluationState \<Rightarrow> error + ReflectionNotes"
  invoke_FinalEvaluation :: "nat \<Rightarrow> PackagingEvaluationState \<Rightarrow> error + FinalEvaluation"

text \<open>
  A handler mutates the record it is given in place. When it raises, the caller still
  holds that object, with whatever was written before the exception: \<open>Inl (e, s')\<close> is the
  exception \<open>e\<close> together with the record \<open>s'\<close> as the handler left it. \<open>Inr s'\<close> is a normal
  return.
\<close>

type_synonym outcome = "(error \<times> PackagingEvaluationState) + PackagingEvaluationState"

section \<open>Step handlers (src/packaging\_evaluation/tools.py)\<close>

definition image_analysis :: "collaborator \<Rightarrow> nat \<Rightarrow> PackagingEvaluationState \<Rightarrow> outcome" where
  "image_analysis c n s =
     (if concept_images s = [] then Inr (s\<lparr>current_node := ''concept_breaker''\<rparr>)
      else
        (case invoke_ImageAnalysis c n s of
           Inl e \<Rightarrow> Inl (e, s)
         | Inr analysis \<Rightarrow>
             Inr ((add_message ''image_analyzer''
                     (''Image analysis complete. Identified ''
                        @ str_nat (length (identified_components analysis))
                        @ '' components. '' @ analysis_summary analysis)
                     (s\<lparr>image_analysis_val := Some analysis\<rparr>))
                  \<lparr>current_node := ''concept_breaker''\<rparr>)))"

definition concept_breaker :: "collaborator \<Rightarrow> nat \<Rightarrow> PackagingEvaluationState \<Rightarrow> outcome" where
  "concept_breaker c n s =
     (case invoke_ComponentList c n s of
        Inl e \<Rightarrow> Inl (e, s)
      | Inr comps \<Rightarrow>
          Inr ((add_message ''concept_breaker''
                  (''Concept breakdown complete. Identified '' @ str_nat (length comps)
                     @ '' components.'')
                  (s\<lparr>components := comps\<rparr>))
               \<lparr>current_node := ''human_feedback''\<rparr>))"

definition component_summary :: "Component \<Rightarrow> string" where
  "component_summary c =
     ''- Component: '' @ name c @ nl @ ''  Material: '' @ material c @ nl
       @ ''  Function: '' @ func c @ nl
       @ ''  Requirements: '' @ join '', '' (requirements c)"

definition feedback_prompt :: "Component list \<Rightarrow> string" where
  "feedback_prompt comps =
     nl @ ''Please review the component breakdown:'' @ nl
     @ nl
     @ join nl (map component_summary comps) @ nl
     @ nl
     @ ''Please provide feedback on:'' @ nl
     @ ''1. Are the component identifications correct? (yes/no)'' @ nl
     @ ''2. Are the material assumptions accurate? (yes/no)'' @ nl
     @ ''3. Any suggested changes or improvements? (list specific changes)'' @ nl
     @ nl
     @ ''Please provide your feedback in the following format:'' @ nl
     @ ''is_correct: [yes/no]'' @ nl
     @ ''feedback_notes: [your notes]'' @ nl
     @ ''suggested_changes: [list of specific changes]'' @ nl"

text \<open>\<^verbatim>\<open>human_feedback\<close> calls no collaborator and has no \<^verbatim>\<open>raise\<close>.\<close>

definition human_feedback :: "PackagingEvaluationState \<Rightarrow> PackagingEvaluationState" where
  "human_feedback s =
     (if user_feedback s = None then
        (add_message ''human_feedback'' (feedback_prompt (components s)) s)
          \<lparr>awaiting_human_input := True, current_node := ''human_feedback''\<rparr>
      else s\<lparr>current_node := ''process_feedback''\<rparr>)"

text \<open>
  \<^verbatim>\<open>if not state.user_feedback\<close>: a pydantic model instance is true, so the test is false
  exactly when feedback is present.
\<close>

definition process_feedback :: "PackagingEvaluationState \<Rightarrow> outcome" where
  "process_feedback s =
     (case user_feedback s of
        None \<Rightarrow> Inl (ValueError ''No user feedback available to process'', s)
      | Some fb \<Rightarrow>
          (let s1 = add_message ''feedback_processor''
                      (''Processing feedback. ''
                         @ (if \<not> is_correct fb then ''Changes requested''
                            else ''Components confirmed correct'')) s;
               s2 = (if is_correct fb then s1\<lparr>current_node := ''technical_feasibility''\<rparr>
                     else (add_message ''feedback_processor''
                             (''Adjusting components based on feedback: ''
                                @ join '', '' (suggested_changes fb)) s1)
                          \<lparr>current_node := ''concept_breaker''\<rparr>)
           in Inr (s2\<lparr>user_feedback := None\<rparr>)))"

definition technical_feasibility :: "collaborator \<Rightarrow> nat \<Rightarrow> PackagingEvaluationState \<Rightarrow> outcome" where
  "technical_feasibility c n s =
     (case invoke_TechnicalAssessment c n s of
        Inl e \<Rightarrow> Inl (e, s)
      | Inr assessment \<Rightarrow>
          Inr ((add_message ''technical_feasibility''
                  (''Technical feasibility assessment complete. Overall feasibility: ''
                     @ str_bool (ta_overall_feasible assessment))
                  (s\<lparr>technical_assessment := Some assessment\<rparr>))
               \<lparr>current_node := ''operations''\<rparr>))"

definition operations :: "collaborator \<Rightarrow> nat \<Rightarrow> PackagingEvaluationState \<Rightarrow> outcome" where
  "operations c n s =
     (case invoke_OperationalAssessment c n s of
        Inl e \<Rightarrow> Inl (e, s)
      | Inr assessment \<Rightarrow>
          Inr ((add_message ''operations''
                  (''Operational impact assessment complete. Overall feasibility: ''
                     @ str_bool (oa_overall_feasible assessment))
                  (s\<lparr>operational_assessment := Some assessment\<rparr>))
               \<lparr>current_node := ''reflection''\<rparr>))"

text \<open>
  \<^verbatim>\<open>reflection\<close> writes \<^verbatim>\<open>state.reflection_counter += 1\<close> first; the collaborator is called
  on the record that already carries the new counter, and only below the ceiling.
\<close>

definition reflection :: "collaborator \<Rightarrow> nat \<Rightarrow> PackagingEvaluationState \<Rightarrow> outcome" where
  "reflection c n s =
     (let s1 = s\<lparr>reflection_counter := reflection_counter s + 1\<rparr> in
      if reflection_counter s1 \<ge> 3 then
        Inr ((add_message ''reflection''
                ''Maximum number of reflections reached (3). Moving to final evaluation.'' s1)
             \<lparr>current_node := ''final_score''\<rparr>)
      else
        (case invoke_ReflectionNotes c n s1 of
           Inl e \<Rightarrow> Inl (e, s1)
         | Inr r \<Rightarrow>
             (let s2 = add_message ''reflection''
                         (''Reflection '' @ str_int (reflection_counter s1)
                            @ ''/3 complete. Requires iteration: ''
                            @ str_bool (requires_iteration r))
                         (s1\<lparr>reflection_notes := Some r\<rparr>)
              in Inr (if requires_iteration r \<and> reflection_counter s2 < 3 then
                        (if questions r \<noteq> [] then s2\<lparr>current_node := ''technical_feasibility''\<rparr>
                         else s2\<lparr>current_node := ''operations''\<rparr>)
                      else s2\<lparr>current_node := ''final_score''\<rparr>))))"

definition final_score :: "collaborator \<Rightarrow> nat \<Rightarrow> PackagingEvaluationState \<Rightarrow> outcome" where
  "final_score c n s =
     (case invoke_FinalEvaluation c n s of
        Inl e \<Rightarrow> Inl (e, s)
      | Inr evaluation \<Rightarrow>
          Inr (add_message ''final_score''
                 (''Final evaluation complete. Score: ''
                    @ str_int (feasibility_score evaluation) @ ''/10. ''
                    @ ''Go decision: '' @ str_bool (go_decision evaluation))
                 (s\<lparr>final_evaluation := Some evaluation,
                    evaluation_score := Some (of_int (feasibility_score evaluation)),
                    final_recommendation := executive_summary evaluation,
                    process_complete := True\<rparr>)))"

section \<open>Router and transition table (src/packaging\_evaluation/graph.py)\<close>



text \<open>
  The keys of the mapping given to \<^verbatim>\<open>graph.add_conditional_edges\<close> for each node. A name that
  is not a node of the graph has no edges.
\<close>



definition entry_point :: string where
  "entry_point = ''image_analyzer''"

section \<open>Driver loop (src/web/api.py)\<close>

text \<open>One pass through the body of the \<^verbatim>\<open>while\<close> loop of \<^verbatim>\<open>evaluate_packaging\<close>.\<close>

definition step :: "collaborator \<Rightarrow> nat \<Rightarrow> PackagingEvaluationState \<Rightarrow> outcome" where
  "step c n s =
     (if current_node s = ''image_analyzer'' then image_analysis c n s
      else if current_node s = ''concept_breaker'' then concept_breaker c n s
      else if current_node s = ''human_feedback'' then Inr (human_feedback s)
      else if current_node s = ''process_feedback'' then process_feedback s
      else if current_node s = ''technical_feasibility'' then technical_feasibility c n s
      else if current_node s = ''operations'' then operations c n s
      else if current_node s = ''reflection'' then reflection c n s
      else if current_node s = ''final_score'' then final_score c n s
      else Inl (HTTPException 400 (''Unknown node: '' @ current_node s), s))"

text \<open>
  The measure of the loop: whether it is still running, whether feedback is waiting to be
  consumed, the reflections left, and the position of the node in the pipeline.
\<close>

definition node_rank :: "string \<Rightarrow> nat" where
  "node_rank v =
     (if v = ''image_analyzer'' then 7
      else if v = ''concept_breaker'' then 6
      else if v = ''human_feedback'' then 5
      else if v = ''process_feedback'' then 4
      else if v = ''technical_feasibility'' then 3
      else if v = ''operations'' then 2
      else if v = ''reflection'' then 1
      else 0)"

definition running :: "PackagingEvaluationState \<Rightarrow> bool" where
  "running s = (\<not> process_complete s \<and> \<not> awaiting_human_input s)"

definition loop_measures :: "(PackagingEvaluationState \<Rightarrow> nat) list" where
  "loop_measures =
     [\<lambda>s. if running s then 1 else 0,
      \<lambda>s. if user_feedback s = None then 0 else 1,
      \<lambda>s. nat (3 - reflection_counter s),
      \<lambda>s. node_rank (current_node s)]"

section \<open>Sample artifacts and collaborators\<close>

text \<open>
  Concrete values on which the theorems below are instantiated: one collaborator that
  answers every call and always asks for another iteration with an open question, and one
  whose every call raises.
\<close>

definition sample_image_analysis :: ImageAnalysis where
  "sample_image_analysis =
     \<lparr> observations = [''a moulded tray under a film lid''],
       identified_components = [''tray'', ''lid''],
       materials_detected = [''pulp''],
       design_features = [],
       analysis_summary = ''A tray with a lid.'' \<rparr>"

definition sample_components :: "Component list" where
  "sample_components =
     [\<lparr> name = ''tray'', material = ''moulded pulp'', func = ''holds the product'',
        requirements = [''rigid'', ''dry''] \<rparr>]"

definition sample_technical :: TechnicalAssessment where
  "sample_technical =
     \<lparr> ta_overall_feasible = True, component_assessments = [],
       technical_summary = ''Feasible.'' \<rparr>"

definition sample_operational :: OperationalAssessment where
  "sample_operational =
     \<lparr> supply_chain_impact = ''Low'', production_changes_needed = [],
       cost_impact = ''Low'', oa_overall_feasible = True,
       operational_summary = ''No change of line.'' \<rparr>"

definition sample_reflection :: ReflectionNotes where
  "sample_reflection =
     \<lparr> blind_spots = [], questions = [''Is the pulp food safe?''],
       requires_iteration = True, reflection_summary = ''One open question.'',
       assessment_approved = False, iteration_count = 1 \<rparr>"

definition sample_final :: FinalEvaluation where
  "sample_final =
     \<lparr> feasibility_score = 7, feasibility_summary = ''Good.'', expert_rationale = ''Known process.'',
       key_strengths = [], key_challenges = [], improvement_recommendations = [],
       go_decision = True, action_items = [], executive_summary = ''Proceed.'' \<rparr>"

definition iterating_collaborator :: collaborator where
  "iterating_collaborator =
     \<lparr> invoke_ImageAnalysis = (\<lambda>n s. Inr sample_image_analysis),
       invoke_ComponentList = (\<lambda>n s. Inr sample_components),
       invoke_TechnicalAssessment = (\<lambda>n s. Inr sample_technical),
       invoke_OperationalAssessment = (\<lambda>n s. Inr sample_operational),
       invoke_ReflectionNotes = (\<lambda>n s. Inr sample_reflection),
       invoke_FinalEvaluation = (\<lambda>n s. Inr sample_final) \<rparr>"

definition failing_collaborator :: collaborator where
  "failing_collaborator =
     \<lparr> invoke_ImageAnalysis = (\<lambda>n s. Inl (CollaboratorError ''timeout'')),
       invoke_ComponentList = (\<lambda>n s. Inl (CollaboratorError ''timeout'')),
       invoke_TechnicalAssessment = (\<lambda>n s. Inl (CollaboratorError ''timeout'')),
       invoke_OperationalAssessment = (\<lambda>n s. Inl (CollaboratorError ''timeout'')),
       invoke_ReflectionNotes = (\<lambda>n s. Inl (CollaboratorError ''timeout'')),
       invoke_FinalEvaluation = (\<lambda>n s. Inl (CollaboratorError ''timeout'')) \<rparr>"

definition sample_feedback :: UserFeedback where
  "sample_feedback =
     \<lparr> is_correct = False, feedback_notes = [''the lid is a film''],
       suggested_changes = [''make the lid a film'', ''drop the sleeve''] \<rparr>"

text \<open>Records at particular steps of the pipeline.\<close>

definition reject_record :: PackagingEvaluationState where
  "reject_record =
     (new_state ''a pulp tray'' [])
       \<lparr>current_node := ''process_feedback'', user_feedback := Some sample_feedback\<rparr>"

definition out_of_order_record :: PackagingEvaluationState where
  "out_of_order_record = (new_state ''a pulp tray'' [])\<lparr>current_node := ''process_feedback''\<rparr>"

definition reflecting_record :: PackagingEvaluationState where
  "reflecting_record = (new_state ''a pulp tray'' [])\<lparr>current_node := ''reflection''\<rparr>"

definition scoring_record :: PackagingEvaluationState where
  "scoring_record = (new_state ''a pulp tray'' [])\<lparr>current_node := ''final_score''\<rparr>"

definition scored_record :: PackagingEvaluationState where
  "scored_record =
     add_message ''final_score'' ''Final evaluation complete. Score: 7/10. Go decision: True''
       (scoring_record\<lparr>final_evaluation := Some sample_final,
                       evaluation_score := Some 7,
                       final_recommendation := ''Proceed.'',
                       process_complete := True\<rparr>)"

definition assessing_record :: PackagingEvaluationState where
  "assessing_record = (new_state ''a pulp tray'' [])\<lparr>current_node := ''technical_feasibility''\<rparr>"

definition third_reflection :: PackagingEvaluationState where
  "third_reflection = reflecting_record\<lparr>reflection_counter := 2\<rparr>"

text \<open>
  The checkpoint at which a run on a fresh record without images stops, and the same
  checkpoint once the caller has attached feedback to it.
\<close>

definition parked_checkpoint :: PackagingEvaluationState where
  "parked_checkpoint =
     (add_message ''human_feedback'' (feedback_prompt sample_components)
        (add_message ''concept_breaker'' ''Concept breakdown complete. Identified 1 components.''
           ((new_state ''a pulp tray'' [])
              \<lparr>components := sample_components, current_node := ''human_feedback''\<rparr>)))
     \<lparr>awaiting_human_input := True\<rparr>"

definition resumed_checkpoint :: PackagingEvaluationState where
  "resumed_checkpoint = parked_checkpoint\<lparr>user_feedback := Some sample_feedback\<rparr>"



definition pictured_record :: PackagingEvaluationState where
  "pictured_record = new_state ''a pulp tray'' [''data:image/png;base64,AAAA'']"

section \<open>Invariants of the loop\<close>

text \<open>
  The reflection counter is at most 2, or it is 3 and the record is at \<^verbatim>\<open>final_score\<close>.
\<close>

definition counter_ok :: "PackagingEvaluationState \<Rightarrow> bool" where
  "counter_ok t = (reflection_counter t \<le> 2 \<or>
                   reflection_counter t = 3 \<and> current_node t = ''final_score'')"

section \<open>The loop terminates\<close>

subsection \<open>The measure decreases at every pass\<close>

lemma image_analysis_frame:
  "image_analysis c n s = Inr t \<Longrightarrow>
     current_node t = ''concept_breaker'' \<and> process_complete t = process_complete s \<and>
     awaiting_human_input t = awaiting_human_input s \<and> user_feedback t = user_feedback s \<and>
     reflection_counter t = reflection_counter s"
  by (auto simp: image_analysis_def add_message_def split: if_splits sum.splits)

lemma concept_breaker_frame:
  "concept_breaker c n s = Inr t \<Longrightarrow>
     current_node t = ''human_feedback'' \<and> process_complete t = process_complete s \<and>
     awaiting_human_input t = awaiting_human_input s \<and> user_feedback t = user_feedback s \<and>
     reflection_counter t = reflection_counter s"
  by (auto simp: concept_breaker_def add_message_def split: sum.splits)

lemma human_feedback_frame:
  "process_complete (human_feedback s) = process_complete s \<and>
   user_feedback (human_feedback s) = user_feedback s \<and>
   reflection_counter (human_feedback s) = reflection_counter s \<and>
   (if user_feedback s = None
    then awaiting_human_input (human_feedback s) \<and> current_node (human_feedback s) = ''human_feedback''
    else awaiting_human_input (human_feedback s) = awaiting_human_input s \<and>
         current_node (human_feedback s) = ''process_feedback'')"
  by (simp add: human_feedback_def add_message_def)

lemma process_feedback_frame:
  "process_feedback s = Inr t \<Longrightarrow>
     process_complete t = process_complete s \<and> user_feedback t = None \<and>
     user_feedback s \<noteq> None \<and> reflection_counter t = reflection_counter s \<and>
     awaiting_human_input t = awaiting_human_input s \<and>
     (current_node t = ''technical_feasibility'' \<or> current_node t = ''concept_breaker'')"
  by (auto simp: process_feedback_def add_message_def Let_def split: option.splits if_splits)

lemma technical_feasibility_frame:
  "technical_feasibility c n s = Inr t \<Longrightarrow>
     current_node t = ''operations'' \<and> process_complete t = process_complete s \<and>
     awaiting_human_input t = awaiting_human_input s \<and> user_feedback t = user_feedback s \<and>
     reflection_counter t = reflection_counter s"
  by (auto simp: technical_feasibility_def add_message_def split: sum.splits)

lemma operations_frame:
  "operations c n s = Inr t \<Longrightarrow>
     current_node t = ''reflection'' \<and> process_complete t = process_complete s \<and>
     awaiting_human_input t = awaiting_human_input s \<and> user_feedback t = user_feedback s \<and>
     reflection_counter t = reflection_counter s"
  by (auto simp: operations_def add_message_def split: sum.splits)

lemma reflection_frame:
  "reflection c n s = Inr t \<Longrightarrow>
     process_complete t = process_complete s \<and>
     awaiting_human_input t = awaiting_human_input s \<and> user_feedback t = user_feedback s \<and>
     reflection_counter t = reflection_counter s + 1 \<and>
     (3 \<le> reflection_counter s + 1 \<longrightarrow> current_node t = ''final_score'') \<and>
     (current_node t = ''technical_feasibility'' \<or> current_node t = ''operations'' \<or>
      current_node t = ''final_score'')"
  by (auto simp: reflection_def add_message_def Let_def split: if_splits sum.splits)

lemma final_score_frame:
  "final_score c n s = Inr t \<Longrightarrow>
     process_complete t \<and> current_node t = current_node s \<and>
     awaiting_human_input t = awaiting_human_input s \<and> user_feedback t = user_feedback s \<and>
     reflection_counter t = reflection_counter s"
  by (auto simp: final_score_def add_message_def split: sum.splits)

lemma step_decreases:
  assumes run: "running s" and st: "step c n s = Inr t"
  shows "(t, s) \<in> measures loop_measures"
proof -
  consider (ia) "current_node s = ''image_analyzer''" "image_analysis c n s = Inr t"
    | (cb) "current_node s = ''concept_breaker''" "concept_breaker c n s = Inr t"
    | (hf) "current_node s = ''human_feedback''" "human_feedback s = t"
    | (pf) "current_node s = ''process_feedback''" "process_feedback s = Inr t"
    | (tf) "current_node s = ''technical_feasibility''" "technical_feasibility c n s = Inr t"
    | (op) "current_node s = ''operations''" "operations c n s = Inr t"
    | (rf) "current_node s = ''reflection''" "reflection c n s = Inr t"
    | (fs) "current_node s = ''final_score''" "final_score c n s = Inr t"
    using st by (simp add: step_def split: if_splits)
  then show ?thesis
  proof cases
    case ia
    with run image_analysis_frame [OF ia(2)] show ?thesis
      by (simp add: loop_measures_def running_def node_rank_def)
  next
    case cb
    with run concept_breaker_frame [OF cb(2)] show ?thesis
      by (simp add: loop_measures_def running_def node_rank_def)
  next
    case hf
    with run human_feedback_frame [of s] show ?thesis
      by (auto simp: loop_measures_def running_def node_rank_def split: if_splits)
  next
    case pf
    with run process_feedback_frame [OF pf(2)] show ?thesis
      by (auto simp: loop_measures_def running_def node_rank_def)
  next
    case tf
    with run technical_feasibility_frame [OF tf(2)] show ?thesis
      by (simp add: loop_measures_def running_def node_rank_def)
  next
    case op
    with run operations_frame [OF op(2)] show ?thesis
      by (simp add: loop_measures_def running_def node_rank_def)
  next
    case rf
    with run reflection_frame [OF rf(2)] show ?thesis
      by (auto simp: loop_measures_def running_def node_rank_def)
  next
    case fs
    with run final_score_frame [OF fs(2)] show ?thesis
      by (simp add: loop_measures_def running_def node_rank_def)
  qed
qed

subsection \<open>The loop\<close>

text \<open>
  \<^verbatim>\<open>while not state.process_complete and not state.awaiting_human_input\<close>: the loop of
  \<^verbatim>\<open>evaluate_packaging\<close>, started on any record. \<open>n\<close> counts the passes. An exception
  leaves the loop at once.
\<close>

function driver_loop :: "collaborator \<Rightarrow> nat \<Rightarrow> PackagingEvaluationState \<Rightarrow> outcome" where
  "driver_loop c n s =
     (if \<not> process_complete s \<and> \<not> awaiting_human_input s then
        (case step c n s of
           Inl e \<Rightarrow> Inl e
         | Inr s' \<Rightarrow> driver_loop c (Suc n) s')
      else Inr s)"
  by pat_completeness auto
termination
proof (relation "inv_image (measures loop_measures) (\<lambda>(c, n, s). s)", goal_cases)
  case 1
  show ?case by simp
next
  case (2 c n s s')
  then show ?case by (simp add: step_decreases running_def)
qed

text \<open>
  The records the loop has at the head of each pass, in order: the record it is started
  on, then the result of every handler that returned. The last one is the record the loop
  returns, or the one on which a handler raised.
\<close>

function visited :: "collaborator \<Rightarrow> nat \<Rightarrow> PackagingEvaluationState \<Rightarrow> PackagingEvaluationState list" where
  "visited c n s =
     s # (if \<not> process_complete s \<and> \<not> awaiting_human_input s then
            (case step c n s of
               Inl e \<Rightarrow> []
             | Inr s' \<Rightarrow> visited c (Suc n) s')
          else [])"
  by pat_completeness auto
termination
proof (relation "inv_image (measures loop_measures) (\<lambda>(c, n, s). s)", goal_cases)
  case 1
  show ?case by simp
next
  case (2 c n s s')
  then show ?case by (simp add: step_decreases running_def)
qed

declare driver_loop.simps [simp del]

declare visited.simps [simp del]

subsection \<open>The endpoint\<close>

text \<open>
  \<^verbatim>\<open>evaluate_packaging\<close> builds the record from the request, runs the loop and answers with
  the record it returns. Any exception \<open>e\<close> of the loop is caught and raised again as
  \<^verbatim>\<open>HTTPException(status_code=500, detail=str(e))\<close>: the result \<open>Inl (500, e)\<close> keeps the
  exception itself in the place of its text.
\<close>

record EvaluationResponse =
  response_state :: PackagingEvaluationState
  response_current_node :: string
  response_messages :: "message list"
  response_process_complete :: bool

definition evaluate_packaging :: "collaborator \<Rightarrow> string \<Rightarrow> string list \<Rightarrow> (nat \<times> error) + EvaluationResponse" where
  "evaluate_packaging c pc imgs =
     (case driver_loop c 0 (new_state pc imgs) of
        Inl (e, s') \<Rightarrow> Inl (500, e)
      | Inr s \<Rightarrow>
          Inr \<lparr> response_state = s,
                response_current_node = current_node s,
                response_messages = messages s,
                response_process_complete = process_complete s \<rparr>)"

section \<open>Facts about the loop\<close>

lemma driver_loop_halted: "\<not> running s \<Longrightarrow> driver_loop c n s = Inr s"
  by (subst driver_loop.simps) (auto simp: running_def)

lemma visited_halted: "\<not> running s \<Longrightarrow> visited c n s = [s]"
  by (subst visited.simps) (auto simp: running_def)

lemma driver_loop_raises:
  "running s \<Longrightarrow> step c n s = Inl e \<Longrightarrow> driver_loop c n s = Inl e"
  by (simp add: driver_loop.simps running_def)

lemma visited_not_Nil: "visited c n s \<noteq> []"
  by (subst visited.simps) simp

text \<open>The record the loop returns is the last one it visits.\<close>

lemma driver_loop_last_visited: "driver_loop c n s = Inr t \<Longrightarrow> last (visited c n s) = t"
proof (induction c n s rule: visited.induct)
  case (1 c n s)
  show ?case
  proof (cases "running s")
    case False
    then show ?thesis
      using "1.prems" by (simp add: driver_loop_halted visited_halted)
  next
    case True
    show ?thesis
    proof (cases "step c n s")
      case (Inl e)
      with True "1.prems" show ?thesis
        by (simp add: driver_loop_raises)
    next
      case (Inr s')
      from True Inr have dl: "driver_loop c n s = driver_loop c (Suc n) s'"
        by (subst driver_loop.simps) (simp add: running_def)
      from True Inr have v: "visited c n s = s # visited c (Suc n) s'"
        by (subst visited.simps) (simp add: running_def)
      from "1.IH" [of s'] True Inr dl "1.prems" have "last (visited c (Suc n) s') = t"
        by (simp add: running_def)
      with v visited_not_Nil [of c "Suc n" s'] show ?thesis
        by simp
    qed
  qed
qed

lemma visited_invariant:
  assumes step: "\<And>c n s t. running s \<Longrightarrow> P s \<Longrightarrow> step c n s = Inr t \<Longrightarrow> P t"
  shows "P s \<Longrightarrow> t \<in> set (visited c n s) \<Longrightarrow> P t"
proof (induction c n s rule: visited.induct)
  case (1 c n s)
  show ?case
  proof (cases "running s")
    case False
    with "1.prems" show ?thesis by (simp add: visited_halted)
  next
    case True
    show ?thesis
    proof (cases "step c n s")
      case (Inl e)
      with True "1.prems" show ?thesis by (simp add: visited.simps [of c n s] running_def)
    next
      case (Inr s')
      with True "1.prems" have "t = s \<or> t \<in> set (visited c (Suc n) s')"
        by (simp add: visited.simps [of c n s] running_def)
      moreover have "P s'" using step [OF True "1.prems"(1) Inr] .
      ultimately show ?thesis
        using "1.IH" [of s'] True Inr "1.prems"(1) by (auto simp: running_def)
    qed
  qed
qed

lemma step_Inr_cases [consumes 1, case_names image_analyzer concept_breaker human_feedback
    process_feedback technical_feasibility operations reflection final_score]:
  assumes "step c n s = Inr t"
  obtains "current_node s = ''image_analyzer''" "image_analysis c n s = Inr t"
    | "current_node s = ''concept_breaker''" "concept_breaker c n s = Inr t"
    | "current_node s = ''human_feedback''" "human_feedback s = t"
    | "current_node s = ''process_feedback''" "process_feedback s = Inr t"
    | "current_node s = ''technical_feasibility''" "technical_feasibility c n s = Inr t"
    | "current_node s = ''operations''" "operations c n s = Inr t"
    | "current_node s = ''reflection''" "reflection c n s = Inr t"
    | "current_node s = ''final_score''" "final_score c n s = Inr t"
  using assms by (simp add: step_def split: if_splits)

lemma counter_ok_step:
  assumes "running s" "counter_ok s" "step c n s = Inr t"
  shows "counter_ok t"
  using assms(3)
proof (cases rule: step_Inr_cases)
  case image_analyzer
  with assms(2) image_analysis_frame [OF image_analyzer(2)] show ?thesis
    by (auto simp: counter_ok_def)
next
  case concept_breaker
  with assms(2) concept_breaker_frame [OF concept_breaker(2)] show ?thesis
    by (auto simp: counter_ok_def)
next
  case human_feedback
  with assms(2) human_feedback_frame [of s] show ?thesis
    by (auto simp: counter_ok_def)
next
  case process_feedback
  with assms(2) process_feedback_frame [OF process_feedback(2)] show ?thesis
    by (auto simp: counter_ok_def)
next
  case technical_feasibility
  with assms(2) technical_feasibility_frame [OF technical_feasibility(2)] show ?thesis
    by (auto simp: counter_ok_def)
next
  case operations
  with assms(2) operations_frame [OF operations(2)] show ?thesis
    by (auto simp: counter_ok_def)
next
  case reflection
  with assms(2) reflection_frame [OF reflection(2)] show ?thesis
    by (auto simp: counter_ok_def)
next
  case final_score
  with assms(2) final_score_frame [OF final_score(2)] show ?thesis
    by (auto simp: counter_ok_def)
qed


lemma visited_trace:
  "map (\<lambda>t. (current_node t, reflection_counter t)) (visited iterating_collaborator 0 assessing_record) =
     [(''technical_feasibility'', 0), (''operations'', 0), (''reflection'', 0),
      (''technical_feasibility'', 1), (''operations'', 1), (''reflection'', 1),
      (''technical_feasibility'', 2), (''operations'', 2), (''reflection'', 2),
      (''final_score'', 3), (''final_score'', 3)]"
  by (simp add: visited.simps step_def assessing_record_def new_state_def iterating_collaborator_def
      technical_feasibility_def operations_def reflection_def final_score_def add_message_def
      sample_reflection_def sample_final_def Let_def)

lemma fresh_run_parks:
  "driver_loop iterating_collaborator 0 (new_state ''a pulp tray'' []) = Inr parked_checkpoint"
  by (simp add: driver_loop.simps step_def new_state_def current_node_default_def
      concept_images_in_class_body_def iterating_collaborator_def parked_checkpoint_def
      image_analysis_def concept_breaker_def human_feedback_def add_message_def
      sample_components_def str_nat.simps [of "Suc 0"] digit_def)

section \<open>Bounded reflection\<close>

text \<open>
  C1. Started on a record whose \<^verbatim>\<open>reflection_counter\<close> is at most 2 (a freshly constructed
  record has 0), the driver loop never visits a record whose counter exceeds 3, and the
  counter is 3 only on records that are at \<^verbatim>\<open>final_score\<close>. The reflection step adds one to
  the counter on every entry, whether it then returns or the collaborator raises. When the
  incremented counter reaches 3 the step returns a record at \<^verbatim>\<open>final_score\<close> that does not
  depend on the collaborator: the collaborator is not consulted, and its
  \<^verbatim>\<open>requires_iteration\<close> flag plays no part.
\<close>

theorem bounded_reflection:
  "(reflection_counter s \<le> 2 \<longrightarrow>
      (\<forall>t \<in> set (visited c n s).
         reflection_counter t \<le> 3 \<and>
         (reflection_counter t = 3 \<longrightarrow> current_node t = ''final_score''))) \<and>
   (reflection c n r = Inr r' \<or> reflection c n r = Inl (e, r') \<longrightarrow>
      reflection_counter r' = reflection_counter r + 1) \<and>
   (3 \<le> reflection_counter r + 1 \<longrightarrow>
      reflection c n r =
        Inr ((add_message ''reflection''
                ''Maximum number of reflections reached (3). Moving to final evaluation.''
                (r\<lparr>reflection_counter := reflection_counter r + 1\<rparr>))
             \<lparr>current_node := ''final_score''\<rparr>))"
proof -
  have a: "reflection_counter t \<le> 3 \<and> (reflection_counter t = 3 \<longrightarrow> current_node t = ''final_score'')"
    if "reflection_counter s \<le> 2" "t \<in> set (visited c n s)" for t
  proof -
    have "counter_ok s" using that(1) by (simp add: counter_ok_def)
    then have "counter_ok t"
      using that(2) counter_ok_step visited_invariant [of counter_ok] by blast
    then show ?thesis by (auto simp: counter_ok_def)
  qed
  have b: "reflection_counter r' = reflection_counter r + 1"
    if "reflection c n r = Inr r' \<or> reflection c n r = Inl (e, r')"
    using that
    by (auto simp: reflection_def Let_def add_message_def split: if_splits sum.splits)
  have d: "reflection c n r =
        Inr ((add_message ''reflection''
                ''Maximum number of reflections reached (3). Moving to final evaluation.''
                (r\<lparr>reflection_counter := reflection_counter r + 1\<rparr>))
             \<lparr>current_node := ''final_score''\<rparr>)"
    if "3 \<le> reflection_counter r + 1"
    using that by (simp add: reflection_def Let_def)
  from a b d show ?thesis by blast
qed

theorem bounded_reflection_witness:
  "reflection_counter assessing_record \<le> 2 \<and>
   list_all (\<lambda>t. reflection_counter t \<le> 3)
     (visited iterating_collaborator 0 assessing_record) \<and>
   map (\<lambda>t. (current_node t, reflection_counter t))
     (visited iterating_collaborator 0 assessing_record) =
     [(''technical_feasibility'', 0), (''operations'', 0), (''reflection'', 0),
      (''technical_feasibility'', 1), (''operations'', 1), (''reflection'', 1),
      (''technical_feasibility'', 2), (''operations'', 2), (''reflection'', 2),
      (''final_score'', 3), (''final_score'', 3)] \<and>
   reflection failing_collaborator 0 reflecting_record =
     Inl (CollaboratorError ''timeout'', reflecting_record\<lparr>reflection_counter := 1\<rparr>) \<and>
   reflection_counter (reflecting_record\<lparr>reflection_counter := 1\<rparr>) =
     reflection_counter reflecting_record + 1 \<and>
   3 \<le> reflection_counter third_reflection + 1 \<and>
   reflection failing_collaborator 0 third_reflection =
     Inr ((add_message ''reflection''
             ''Maximum number of reflections reached (3). Moving to final evaluation.''
             (third_reflection\<lparr>reflection_counter := 3\<rparr>))
          \<lparr>current_node := ''final_score''\<rparr>)"
proof -
  have h1: "reflection_counter assessing_record \<le> 2"
    by (simp add: assessing_record_def new_state_def)
  have h2: "reflection failing_collaborator 0 reflecting_record =
     Inl (CollaboratorError ''timeout'', reflecting_record\<lparr>reflection_counter := 1\<rparr>)"
    by (simp add: reflection_def reflecting_record_def new_state_def failing_collaborator_def)
  have h3: "3 \<le> reflection_counter third_reflection + 1"
    by (simp add: third_reflection_def)
  have h4: "reflection_counter third_reflection + 1 = 3"
    by (simp add: third_reflection_def)
  note inst1 = bounded_reflection [where s = assessing_record and c = iterating_collaborator
      and n = 0 and r = third_reflection and r' = third_reflection and e = "CollaboratorError []"]
  note inst2 = bounded_reflection [where s = assessing_record and c = failing_collaborator
      and n = 0 and r = third_reflection and r' = third_reflection and e = "CollaboratorError []"]
  have w1: "list_all (\<lambda>t. reflection_counter t \<le> 3)
     (visited iterating_collaborator 0 assessing_record)"
    unfolding list_all_iff using inst1 h1 by blast
  note inst3 = bounded_reflection [where s = assessing_record and c = failing_collaborator
      and n = 0 and r = reflecting_record
      and r' = "reflecting_record\<lparr>reflection_counter := 1\<rparr>"
      and e = "CollaboratorError ''timeout''"]
  have w2: "reflection failing_collaborator 0 third_reflection =
     Inr ((add_message ''reflection''
             ''Maximum number of reflections reached (3). Moving to final evaluation.''
             (third_reflection\<lparr>reflection_counter := reflection_counter third_reflection + 1\<rparr>))
          \<lparr>current_node := ''final_score''\<rparr>)"
    using inst2 h3 by blast
  have w3: "reflection_counter (reflecting_record\<lparr>reflection_counter := 1\<rparr>) =
     reflection_counter reflecting_record + 1"
    using inst3 h2 by blast
  show ?thesis
    using h1 h2 h3 w1 w2 [unfolded h4] w3 visited_trace by (intro conjI) assumption+
qed

section \<open>The first step of a record without images\<close>

text \<open>
  C2. The claim is that a record constructed with an empty image list starts at
  \<^verbatim>\<open>concept_breaker\<close> and never enters the image step. The program does otherwise: the
  default of \<^verbatim>\<open>current_node\<close> is \<^verbatim>\<open>"image_analyzer"\<close> for every record, with or without
  images, so the first pass of the loop runs \<^verbatim>\<open>image_analysis\<close>, which returns at its
  guard with the next step \<^verbatim>\<open>concept_breaker\<close>. The graph has the same entry point.
\<close>

theorem empty_image_list_starts_at_image_analyzer:
  "current_node (new_state pc []) = ''image_analyzer'' \<and>
   step c n (new_state pc []) = Inr ((new_state pc [])\<lparr>current_node := ''concept_breaker''\<rparr>) \<and>
   take 2 (visited c n (new_state pc [])) =
     [new_state pc [], (new_state pc [])\<lparr>current_node := ''concept_breaker''\<rparr>] \<and>
   entry_point = ''image_analyzer''"
  by (simp add: new_state_def current_node_default_def concept_images_in_class_body_def
      step_def image_analysis_def entry_point_def visited.simps [of c n]
      visited.simps [of c "Suc n"])

section \<open>The feedback gate\<close>

text \<open>
  C3. The claim is that \<^verbatim>\<open>human_feedback\<close>, run on a record that holds feedback, clears
  \<^verbatim>\<open>awaiting_human_input\<close> and sets the next step to \<^verbatim>\<open>process_feedback\<close>, so that a record
  which waits for input is always parked at the feedback step without feedback. The
  program sets the next step and leaves the flag as it is. A run on a fresh record stops at
  the feedback step with the flag set; once feedback is attached to that checkpoint,
  \<^verbatim>\<open>human_feedback\<close> returns a record that still waits for input, now at
  \<^verbatim>\<open>process_feedback\<close> and with the feedback in it, and the driver loop started on the
  checkpoint runs no step at all, because its guard sees the flag.
\<close>

theorem human_feedback_keeps_awaiting:
  "driver_loop iterating_collaborator 0 (new_state ''a pulp tray'' []) = Inr parked_checkpoint \<and>
   awaiting_human_input parked_checkpoint \<and>
   current_node parked_checkpoint = ''human_feedback'' \<and>
   user_feedback resumed_checkpoint = Some sample_feedback \<and>
   human_feedback resumed_checkpoint = resumed_checkpoint\<lparr>current_node := ''process_feedback''\<rparr> \<and>
   awaiting_human_input (human_feedback resumed_checkpoint) \<and>
   current_node (human_feedback resumed_checkpoint) = ''process_feedback'' \<and>
   user_feedback (human_feedback resumed_checkpoint) = Some sample_feedback \<and>
   driver_loop iterating_collaborator 0 resumed_checkpoint = Inr resumed_checkpoint \<and>
   visited iterating_collaborator 0 resumed_checkpoint = [resumed_checkpoint]"
proof -
  have aw: "awaiting_human_input resumed_checkpoint"
    by (simp add: resumed_checkpoint_def parked_checkpoint_def)
  then have halt: "\<not> running resumed_checkpoint"
    by (simp add: running_def)
  have hf: "human_feedback resumed_checkpoint = resumed_checkpoint\<lparr>current_node := ''process_feedback''\<rparr>"
    by (simp add: human_feedback_def resumed_checkpoint_def)
  show ?thesis
    using fresh_run_parks aw driver_loop_halted [OF halt] visited_halted [OF halt]
    by (simp add: hf) (simp add: resumed_checkpoint_def parked_checkpoint_def add_message_def)
qed

section \<open>The router\<close>




section \<open>Failure of the collaborator\<close>

text \<open>
  C5, as stated, at a fresh record on which the reflection step runs while every call of
  the collaborator raises: the record the step leaves behind has \<^verbatim>\<open>reflection_counter\<close> 1,
  not 0.
\<close>

theorem reflection_failure_keeps_increment:
  "reflection_counter reflecting_record = 0 \<and>
   invoke_ReflectionNotes failing_collaborator 0 (reflecting_record\<lparr>reflection_counter := 1\<rparr>)
     = Inl (CollaboratorError ''timeout'') \<and>
   reflection failing_collaborator 0 reflecting_record =
     Inl (CollaboratorError ''timeout'', reflecting_record\<lparr>reflection_counter := 1\<rparr>) \<and>
   reflection_counter (reflecting_record\<lparr>reflection_counter := 1\<rparr>) = 1"
  by (simp add: reflection_def reflecting_record_def new_state_def failing_collaborator_def)

text \<open>
  C5, amended. In \<^verbatim>\<open>image_analysis\<close>, \<^verbatim>\<open>concept_breaker\<close>, \<^verbatim>\<open>technical_feasibility\<close>,
  \<^verbatim>\<open>operations\<close> and \<^verbatim>\<open>final_score\<close>, when the call of the collaborator raises, the step
  raises the same exception and the record is exactly as it was before the step began:
  every field, \<^verbatim>\<open>current_node\<close>, \<^verbatim>\<open>technical_assessment\<close> and the message log included. In
  \<^verbatim>\<open>reflection\<close>, which consults the collaborator only below the ceiling, the record is
  as it was except for \<^verbatim>\<open>reflection_counter\<close>, which is one more than before.
\<close>

theorem collaborator_failure_frame:
  "(concept_images s \<noteq> [] \<and> invoke_ImageAnalysis c n s = Inl e \<longrightarrow>
      image_analysis c n s = Inl (e, s)) \<and>
   (invoke_ComponentList c n s = Inl e \<longrightarrow> concept_breaker c n s = Inl (e, s)) \<and>
   (invoke_TechnicalAssessment c n s = Inl e \<longrightarrow> technical_feasibility c n s = Inl (e, s)) \<and>
   (invoke_OperationalAssessment c n s = Inl e \<longrightarrow> operations c n s = Inl (e, s)) \<and>
   (invoke_FinalEvaluation c n s = Inl e \<longrightarrow> final_score c n s = Inl (e, s)) \<and>
   (reflection_counter s + 1 < 3 \<and>
    invoke_ReflectionNotes c n (s\<lparr>reflection_counter := reflection_counter s + 1\<rparr>) = Inl e \<longrightarrow>
      reflection c n s = Inl (e, s\<lparr>reflection_counter := reflection_counter s + 1\<rparr>))"
proof -
  have a: "image_analysis c n s = Inl (e, s)"
    if "concept_images s \<noteq> []" "invoke_ImageAnalysis c n s = Inl e"
    using that by (simp add: image_analysis_def)
  have b: "concept_breaker c n s = Inl (e, s)" if "invoke_ComponentList c n s = Inl e"
    using that by (simp add: concept_breaker_def)
  have d: "technical_feasibility c n s = Inl (e, s)" if "invoke_TechnicalAssessment c n s = Inl e"
    using that by (simp add: technical_feasibility_def)
  have f: "operations c n s = Inl (e, s)" if "invoke_OperationalAssessment c n s = Inl e"
    using that by (simp add: operations_def)
  have g: "final_score c n s = Inl (e, s)" if "invoke_FinalEvaluation c n s = Inl e"
    using that by (simp add: final_score_def)
  have h: "reflection c n s = Inl (e, s\<lparr>reflection_counter := reflection_counter s + 1\<rparr>)"
    if "reflection_counter s + 1 < 3"
      "invoke_ReflectionNotes c n (s\<lparr>reflection_counter := reflection_counter s + 1\<rparr>) = Inl e"
    using that by (simp add: reflection_def Let_def)
  from a b d f g h show ?thesis by blast
qed

theorem collaborator_failure_frame_witness:
  "concept_images pictured_record \<noteq> [] \<and>
   invoke_TechnicalAssessment failing_collaborator 0 assessing_record = Inl (CollaboratorError ''timeout'') \<and>
   image_analysis failing_collaborator 0 pictured_record = Inl (CollaboratorError ''timeout'', pictured_record) \<and>
   concept_breaker failing_collaborator 0 assessing_record = Inl (CollaboratorError ''timeout'', assessing_record) \<and>
   technical_feasibility failing_collaborator 0 assessing_record = Inl (CollaboratorError ''timeout'', assessing_record) \<and>
   technical_assessment assessing_record = None \<and>
   operations failing_collaborator 0 assessing_record = Inl (CollaboratorError ''timeout'', assessing_record) \<and>
   final_score failing_collaborator 0 assessing_record = Inl (CollaboratorError ''timeout'', assessing_record) \<and>
   reflection_counter assessing_record + 1 < 3 \<and>
   reflection failing_collaborator 0 assessing_record =
     Inl (CollaboratorError ''timeout'',
          assessing_record\<lparr>reflection_counter := reflection_counter assessing_record + 1\<rparr>)"
proof -
  have h1: "concept_images pictured_record \<noteq> []"
    by (simp add: pictured_record_def new_state_def)
  have h2: "invoke_ImageAnalysis failing_collaborator 0 pictured_record = Inl (CollaboratorError ''timeout'')"
    "invoke_ComponentList failing_collaborator 0 assessing_record = Inl (CollaboratorError ''timeout'')"
    "invoke_TechnicalAssessment failing_collaborator 0 assessing_record = Inl (CollaboratorError ''timeout'')"
    "invoke_OperationalAssessment failing_collaborator 0 assessing_record = Inl (CollaboratorError ''timeout'')"
    "invoke_FinalEvaluation failing_collaborator 0 assessing_record = Inl (CollaboratorError ''timeout'')"
    "invoke_ReflectionNotes failing_collaborator 0
       (assessing_record\<lparr>reflection_counter := reflection_counter assessing_record + 1\<rparr>)
       = Inl (CollaboratorError ''timeout'')"
    by (simp_all add: failing_collaborator_def)
  have h3: "reflection_counter assessing_record + 1 < 3"
    by (simp add: assessing_record_def new_state_def)
  have h4: "technical_assessment assessing_record = None"
    by (simp add: assessing_record_def new_state_def)
  note inst1 = collaborator_failure_frame [where s = pictured_record and c = failing_collaborator
      and n = 0 and e = "CollaboratorError ''timeout''"]
  note inst2 = collaborator_failure_frame [where s = assessing_record and c = failing_collaborator
      and n = 0 and e = "CollaboratorError ''timeout''"]
  have w1: "image_analysis failing_collaborator 0 pictured_record = Inl (CollaboratorError ''timeout'', pictured_record)"
    using inst1 h1 h2(1) by blast
  have w2: "concept_breaker failing_collaborator 0 assessing_record = Inl (CollaboratorError ''timeout'', assessing_record)"
    using inst2 h2(2) by blast
  have w3: "technical_feasibility failing_collaborator 0 assessing_record = Inl (CollaboratorError ''timeout'', assessing_record)"
    using inst2 h2(3) by blast
  have w4: "operations failing_collaborator 0 assessing_record = Inl (CollaboratorError ''timeout'', assessing_record)"
    using inst2 h2(4) by blast
  have w5: "final_score failing_collaborator 0 assessing_record = Inl (CollaboratorError ''timeout'', assessing_record)"
    using inst2 h2(5) by blast
  have w6: "reflection failing_collaborator 0 assessing_record =
     Inl (CollaboratorError ''timeout'',
          assessing_record\<lparr>reflection_counter := reflection_counter assessing_record + 1\<rparr>)"
    using inst2 h3 h2(6) by blast
  show ?thesis
    using h1 h2(3) h3 h4 w1 w2 w3 w4 w5 w6 by (intro conjI) assumption+
qed

section \<open>Routing out of the reflection step\<close>

text \<open>
  C6. When \<^verbatim>\<open>reflection\<close> runs and the incremented counter is below the ceiling 3, the
  collaborator is asked, and if it answers with notes \<open>r\<close> the step returns a record whose
  next step is \<^verbatim>\<open>technical_feasibility\<close> when \<open>r\<close> requires iteration and has at least one
  open question, \<^verbatim>\<open>operations\<close> when it requires iteration and has none, and
  \<^verbatim>\<open>final_score\<close> otherwise.
\<close>

theorem reflection_below_ceiling:
  assumes "reflection_counter s + 1 < 3"
    and "invoke_ReflectionNotes c n (s\<lparr>reflection_counter := reflection_counter s + 1\<rparr>) = Inr r"
  shows "\<exists>t. reflection c n s = Inr t \<and>
           current_node t =
             (if requires_iteration r
              then (if questions r \<noteq> [] then ''technical_feasibility'' else ''operations'')
              else ''final_score'')"
  using assms by (simp add: reflection_def Let_def add_message_def)

theorem reflection_below_ceiling_witness:
  "reflection_counter reflecting_record + 1 < 3 \<and>
   invoke_ReflectionNotes iterating_collaborator 0
     (reflecting_record\<lparr>reflection_counter := reflection_counter reflecting_record + 1\<rparr>)
     = Inr sample_reflection \<and>
   (\<exists>t. reflection iterating_collaborator 0 reflecting_record = Inr t \<and>
        current_node t = ''technical_feasibility'')"
  using reflection_below_ceiling [of reflecting_record iterating_collaborator 0 sample_reflection]
  by (simp add: reflecting_record_def new_state_def iterating_collaborator_def sample_reflection_def)

section \<open>Consuming the feedback\<close>

text \<open>
  C7. Whenever \<^verbatim>\<open>process_feedback\<close> runs on a record that holds feedback, it returns a record
  whose \<^verbatim>\<open>user_feedback\<close> is empty, in the accepting and in the rejecting branch alike, and
  whose next step is \<^verbatim>\<open>technical_feasibility\<close> when the feedback says the components are
  correct and \<^verbatim>\<open>concept_breaker\<close> when it does not.
\<close>

theorem process_feedback_consumes:
  assumes "user_feedback s = Some fb"
  shows "\<exists>t. process_feedback s = Inr t \<and> user_feedback t = None \<and>
           current_node t = (if is_correct fb then ''technical_feasibility'' else ''concept_breaker'')"
  using assms by (simp add: process_feedback_def Let_def add_message_def)

theorem process_feedback_consumes_witness:
  "user_feedback reject_record = Some sample_feedback \<and>
   (\<exists>t. process_feedback reject_record = Inr t \<and> user_feedback t = None \<and>
        current_node t = ''concept_breaker'')"
  using process_feedback_consumes [of reject_record sample_feedback]
  by (simp add: reject_record_def sample_feedback_def)

text \<open>
  C8. \<^verbatim>\<open>process_feedback\<close> raises exactly when the record holds no feedback. The exception
  is the \<^verbatim>\<open>ValueError\<close> of line 210, the record is as it was, and the driver loop, parked
  at that step, ends with this very exception instead of going on.
\<close>

theorem process_feedback_missing:
  "(isl (process_feedback s) \<longleftrightarrow> user_feedback s = None) \<and>
   (user_feedback s = None \<longrightarrow>
      process_feedback s = Inl (ValueError ''No user feedback available to process'', s) \<and>
      (running s \<and> current_node s = ''process_feedback'' \<longrightarrow>
         driver_loop c n s = Inl (ValueError ''No user feedback available to process'', s)))"
proof -
  have a: "isl (process_feedback s) \<longleftrightarrow> user_feedback s = None"
    by (simp add: process_feedback_def Let_def split: option.splits)
  have b: "process_feedback s = Inl (ValueError ''No user feedback available to process'', s)"
    if "user_feedback s = None"
    using that by (simp add: process_feedback_def)
  have c: "driver_loop c n s = Inl (ValueError ''No user feedback available to process'', s)"
    if "user_feedback s = None" "running s" "current_node s = ''process_feedback''"
  proof -
    have "step c n s = process_feedback s"
      using that(3) by (simp add: step_def)
    with b [OF that(1)] that(2) show ?thesis
      by (simp add: driver_loop_raises)
  qed
  from a b c show ?thesis by blast
qed

theorem process_feedback_missing_witness:
  "isl (process_feedback out_of_order_record) \<and>
   user_feedback out_of_order_record = None \<and>
   running out_of_order_record \<and> current_node out_of_order_record = ''process_feedback'' \<and>
   process_feedback out_of_order_record =
     Inl (ValueError ''No user feedback available to process'', out_of_order_record) \<and>
   driver_loop failing_collaborator 0 out_of_order_record =
     Inl (ValueError ''No user feedback available to process'', out_of_order_record) \<and>
   \<not> isl (process_feedback reject_record)"
  using process_feedback_missing [of out_of_order_record failing_collaborator 0]
    process_feedback_missing [of reject_record failing_collaborator 0]
  by (simp add: out_of_order_record_def reject_record_def new_state_def running_def)

section \<open>Completion\<close>

text \<open>
  C9. Started on a record whose \<^verbatim>\<open>process_complete\<close> is set, the driver loop returns that
  record and runs no step: the records it visits are that record alone. When
  \<^verbatim>\<open>final_score\<close> returns, \<^verbatim>\<open>process_complete\<close> is set in the record it returns and
  \<^verbatim>\<open>current_node\<close> is what it was; started on that record, with any collaborator, the loop
  returns it unchanged without another pass.
\<close>

theorem completion_is_final:
  "(process_complete s \<longrightarrow> driver_loop c n s = Inr s \<and> visited c n s = [s]) \<and>
   (final_score c n s = Inr t \<longrightarrow>
      process_complete t \<and> current_node t = current_node s \<and>
      driver_loop c' m t = Inr t \<and> visited c' m t = [t])"
proof -
  have a: "driver_loop c n s = Inr s \<and> visited c n s = [s]" if "process_complete s" for c n s
    using that by (simp add: driver_loop_halted visited_halted running_def)
  have b: "process_complete t \<and> current_node t = current_node s" if "final_score c n s = Inr t"
    using final_score_frame [OF that] by simp
  from a b show ?thesis by blast
qed

theorem completion_is_final_witness:
  "process_complete scored_record \<and>
   driver_loop failing_collaborator 0 scored_record = Inr scored_record \<and>
   visited failing_collaborator 0 scored_record = [scored_record] \<and>
   final_score iterating_collaborator 0 scoring_record = Inr scored_record \<and>
   current_node scored_record = current_node scoring_record \<and>
   driver_loop iterating_collaborator 1 scored_record = Inr scored_record \<and>
   visited iterating_collaborator 1 scored_record = [scored_record]"
proof -
  have ok: "final_score iterating_collaborator 0 scoring_record = Inr scored_record"
    by (simp add: final_score_def iterating_collaborator_def scored_record_def sample_final_def
        str_int_def str_bool_def str_nat.simps [of 7] digit_def)
  have fin: "process_complete scored_record"
    by (simp add: scored_record_def add_message_def)
  show ?thesis
    using completion_is_final [where s = scored_record and c = failing_collaborator and n = 0]
      completion_is_final [where s = scoring_record and c = iterating_collaborator and n = 0
        and t = scored_record and c' = iterating_collaborator and m = 1]
      ok fin
    by simp
qed

section \<open>The image step on a record without images\<close>

text \<open>
  C10. For every record whose \<^verbatim>\<open>concept_images\<close> list is empty, \<^verbatim>\<open>image_analysis\<close> returns the
  record with \<^verbatim>\<open>current_node\<close> set to \<^verbatim>\<open>"concept_breaker"\<close> and every other field as it was:
  the message log gets no entry and the stored image analysis is untouched. The result is
  the same for every collaborator and every pass number, so no collaborator is consulted.
\<close>

theorem image_analysis_no_images:
  "concept_images s = [] \<Longrightarrow> image_analysis c n s = Inr (s\<lparr>current_node := ''concept_breaker''\<rparr>)"
  by (simp add: image_analysis_def)

theorem image_analysis_no_images_witness:
  "concept_images (new_state ''a pulp tray'' []) = [] \<and>
   image_analysis failing_collaborator 0 (new_state ''a pulp tray'' []) =
     Inr ((new_state ''a pulp tray'' [])\<lparr>current_node := ''concept_breaker''\<rparr>) \<and>
   messages ((new_state ''a pulp tray'' [])\<lparr>current_node := ''concept_breaker''\<rparr>) = [] \<and>
   image_analysis_val ((new_state ''a pulp tray'' [])\<lparr>current_node := ''concept_breaker''\<rparr>) = None"
  using image_analysis_no_images [of "new_state ''a pulp tray'' []" failing_collaborator 0]
  by (simp add: new_state_def)

end
